theory Spec2Isabelle
  imports Main
begin

unbundle bit_operations_syntax

section \<open>Python values\<close>

text \<open>
  A Python \<open>str\<close> is a sequence of Unicode code points, so it is modelled as a list of
  natural numbers; \<open>lit\<close> turns an ASCII literal into such a list.
\<close>

type_synonym str = "nat list"

definition lit :: "string \<Rightarrow> str" where
  "lit s = map of_char s"

lemma lit_eq_iff [simp]: "lit a = lit b \<longleftrightarrow> a = b"
  by (simp add: lit_def inj_map_eq_map inj_of_char)

lemma lit_eq_Nil_iff [simp]: "lit a = [] \<longleftrightarrow> a = []"
  by (simp add: lit_def)

text \<open>
  The exceptions that can arise in the handlers. \<open>ConnectionError\<close> stands for any
  exception of \<open>requests.post\<close>, \<open>DuplicateKeyError\<close> is what \<open>insert_one\<close>
  raises when a unique index rejects a document.
\<close>

datatype exn =
    JSONDecodeError
  | KeyError
  | AttributeError
  | TypeError
  | ConnectionError
  | DuplicateKeyError

text \<open>
  The values that occur in request bodies, decoded payloads and stored documents.
  A \<open>dict\<close> keeps insertion order and is an association list with distinct keys.
  A float is kept as the literal that denotes it: floating-point rounding is not
  modelled, and no handler computes with floats.
\<close>

datatype pyval =
    PNone
  | PBool bool
  | PInt int
  | PFloat str
  | PStr str
  | PList "pyval list"
  | PDict "(str \<times> pyval) list"
  | PObjectId nat

text \<open>\<open>d[k] = v\<close>: an existing key keeps its position, a new key goes to the end.\<close>

fun dict_set :: "(str \<times> pyval) list \<Rightarrow> str \<Rightarrow> pyval \<Rightarrow> (str \<times> pyval) list" where
  "dict_set [] k v = [(k, v)]"
| "dict_set ((k', v') # d) k v = (if k' = k then (k, v) # d else (k', v') # dict_set d k v)"

text \<open>\<open>dict(pairs)\<close>: later pairs overwrite earlier ones with the same key.\<close>

definition dict :: "(str \<times> pyval) list \<Rightarrow> (str \<times> pyval) list" where
  "dict pairs = foldl (\<lambda>d (k, v). dict_set d k v) [] pairs"

section \<open>The \<open>json\<close> module: decoding\<close>

text \<open>
  \<open>json.loads\<close> as CPython implements it (\<open>json/decoder.py\<close>, \<open>json/scanner.py\<close>).
  The scanner works on the remaining input instead of an index into the string. Every
  failure of the decoder reaches the caller as \<open>JSONDecodeError\<close> (the scanner's
  \<open>StopIteration\<close> is turned into one by each of its callers), so the scanning
  functions return \<open>None\<close> for it. Resource limits of the interpreter (recursion depth,
  the digit limit of \<open>int\<close>) are not modelled.
\<close>

text \<open>The pattern \<open>WHITESPACE\<close>: blanks, tabs, line feeds and carriage returns.\<close>

definition is_ws :: "nat \<Rightarrow> bool" where
  "is_ws c = (c = 32 \<or> c = 9 \<or> c = 10 \<or> c = 13)"

definition skip_ws :: "str \<Rightarrow> str" where
  "skip_ws s = dropWhile is_ws s"

text \<open>
  \<open>_decode_uXXXX\<close> reads the four hexadecimal digits after \<open>\u\<close>, in either case, as
  the C implementation of the scanner does; the argument is the input after the \<open>u\<close>.
\<close>

definition hexval :: "nat \<Rightarrow> nat option" where
  "hexval c = (if 48 \<le> c \<and> c \<le> 57 then Some (c - 48)
               else if 97 \<le> c \<and> c \<le> 102 then Some (c - 87)
               else if 65 \<le> c \<and> c \<le> 70 then Some (c - 55)
               else None)"

definition decode_uXXXX :: "str \<Rightarrow> nat option" where
  "decode_uXXXX s =
     (case s of
        a # b # c # d # _ \<Rightarrow>
          (case (hexval a, hexval b, hexval c, hexval d) of
             (Some x, Some y, Some z, Some w) \<Rightarrow> Some (((x * 16 + y) * 16 + z) * 16 + w)
           | _ \<Rightarrow> None)
      | _ \<Rightarrow> None)"

text \<open>The table \<open>BACKSLASH\<close> of the one-character escapes.\<close>

definition BACKSLASH :: "nat \<Rightarrow> nat option" where
  "BACKSLASH c =
     (if c = 34 then Some 34 else if c = 92 then Some 92 else if c = 47 then Some 47
      else if c = 98 then Some 8 else if c = 102 then Some 12 else if c = 110 then Some 10
      else if c = 114 then Some 13 else if c = 116 then Some 9 else None)"

text \<open>
  \<open>scanstring\<close>, in strict mode: the argument is the input after the opening quote, the
  result the decoded string and the input after the closing quote. A quote ends the
  string, a backslash starts an escape, a control character is an error, and a
  \<open>\u\<close> escape for a high surrogate that is followed by one for a low surrogate
  gives one character. \<open>append_char\<close> puts a decoded character in front of the rest.
\<close>

definition append_char :: "nat \<Rightarrow> (str \<times> str) option \<Rightarrow> (str \<times> str) option" where
  "append_char c res = (case res of None \<Rightarrow> None | Some (t, r) \<Rightarrow> Some (c # t, r))"

fun scanstring :: "str \<Rightarrow> (str \<times> str) option" where
  "scanstring [] = None"
| "scanstring (c # cs) =
     (if c = 34 then Some ([], cs)
      else if c = 92 then
        (case cs of
           [] \<Rightarrow> None
         | esc # es \<Rightarrow>
             if esc \<noteq> 117 then
               (case BACKSLASH esc of
                  None \<Rightarrow> None
                | Some ch \<Rightarrow> append_char ch (scanstring es))
             else
               (case decode_uXXXX es of
                  None \<Rightarrow> None
                | Some uni \<Rightarrow>
                    if 0xd800 \<le> uni \<and> uni \<le> 0xdbff \<and> take 2 (drop 4 es) = [92, 117] then
                      (case decode_uXXXX (drop 6 es) of
                         None \<Rightarrow> None
                       | Some uni2 \<Rightarrow>
                           if 0xdc00 \<le> uni2 \<and> uni2 \<le> 0xdfff then
                             append_char (0x10000 + (push_bit 10 (uni - 0xd800) OR (uni2 - 0xdc00)))
                               (scanstring (drop 10 es))
                           else append_char uni (scanstring (drop 4 es)))
                    else append_char uni (scanstring (drop 4 es))))
      else if c < 32 then None
      else append_char c (scanstring cs))"

text \<open>
  The pattern \<open>NUMBER_RE\<close>, \<open>(-?(?:0|[1-9]\d*))(\.\d+)?([eE][-+]?\d+)?\<close>, with its three
  groups: the integer part, the fraction and the exponent, the last two possibly empty.
\<close>

definition is_digit :: "nat \<Rightarrow> bool" where
  "is_digit c = (48 \<le> c \<and> c \<le> 57)"

definition match_integer :: "str \<Rightarrow> (str \<times> str) option" where
  "match_integer s =
     (let (sign, t) = (case s of [] \<Rightarrow> ([], s) | c # r \<Rightarrow> if c = 45 then ([c], r) else ([], s))
      in case t of
           [] \<Rightarrow> None
         | d # r \<Rightarrow>
             if d = 48 then Some (sign @ [d], r)
             else if 49 \<le> d \<and> d \<le> 57
               then Some (sign @ d # takeWhile is_digit r, dropWhile is_digit r)
             else None)"

definition match_frac :: "str \<Rightarrow> str \<times> str" where
  "match_frac s =
     (case s of
        c # d # r \<Rightarrow>
          if c = 46 \<and> is_digit d
            then (c # takeWhile is_digit (d # r), dropWhile is_digit (d # r))
          else ([], s)
      | _ \<Rightarrow> ([], s))"

definition match_exp :: "str \<Rightarrow> str \<times> str" where
  "match_exp s =
     (case s of
        [] \<Rightarrow> ([], s)
      | e # t \<Rightarrow>
          if e = 101 \<or> e = 69 then
            (let (sign, t') = (case t of [] \<Rightarrow> ([], t)
                               | c # r \<Rightarrow> if c = 45 \<or> c = 43 then ([c], r) else ([], t))
             in case t' of
                  [] \<Rightarrow> ([], s)
                | d # r \<Rightarrow>
                    if is_digit d
                      then (e # sign @ takeWhile is_digit t', dropWhile is_digit t')
                    else ([], s))
          else ([], s))"

definition match_number :: "str \<Rightarrow> (str \<times> str \<times> str \<times> str) option" where
  "match_number s =
     (case match_integer s of
        None \<Rightarrow> None
      | Some (integer, r1) \<Rightarrow>
          (let (frac, r2) = match_frac r1; (exp, r3) = match_exp r2
           in Some (integer, frac, exp, r3)))"

text \<open>\<open>int(integer)\<close> for a match of the integer part.\<close>

definition digits_value :: "str \<Rightarrow> nat" where
  "digits_value ds = foldl (\<lambda>a c. a * 10 + (c - 48)) 0 ds"

definition parse_int :: "str \<Rightarrow> int" where
  "parse_int s =
     (case s of
        [] \<Rightarrow> 0
      | c # r \<Rightarrow> if c = 45 then - int (digits_value r) else int (digits_value s))"

text \<open>
  The branches of \<open>_scan_once\<close> after those for strings, objects and arrays, in their
  order: \<open>null\<close>, \<open>true\<close>, \<open>false\<close>, a number, \<open>NaN\<close>, \<open>Infinity\<close>, \<open>-Infinity\<close>.
\<close>

definition scan_literal :: "str \<Rightarrow> (pyval \<times> str) option" where
  "scan_literal s =
     (if take 4 s = lit ''null'' then Some (PNone, drop 4 s)
      else if take 4 s = lit ''true'' then Some (PBool True, drop 4 s)
      else if take 5 s = lit ''false'' then Some (PBool False, drop 5 s)
      else
        (case match_number s of
           Some (integer, frac, exp, r) \<Rightarrow>
             if frac \<noteq> [] \<or> exp \<noteq> [] then Some (PFloat (integer @ frac @ exp), r)
             else Some (PInt (parse_int integer), r)
         | None \<Rightarrow>
             if take 3 s = lit ''NaN'' then Some (PFloat (lit ''NaN''), drop 3 s)
             else if take 8 s = lit ''Infinity'' then Some (PFloat (lit ''Infinity''), drop 8 s)
             else if take 9 s = lit ''-Infinity'' then Some (PFloat (lit ''-Infinity''), drop 9 s)
             else None))"

text \<open>
  \<open>_scan_once\<close>, \<open>JSONObject\<close> and \<open>JSONArray\<close> call each other; the two loops are
  functions of their own. \<open>JSONObject\<close> and \<open>JSONArray\<close> get the input after the opening
  bracket, \<open>JSONObject_loop\<close> the input after the opening quote of a key,
  \<open>JSONArray_loop\<close> the input at the next value. They terminate because every scanner
  returns a rest that is no longer than its input, which the lemmas before and after the
  definition establish.
\<close>

lemma length_skip_ws: "length (skip_ws s) \<le> length s"
  by (simp add: skip_ws_def length_dropWhile_le)

lemma skip_ws_Cons: "skip_ws s = c # r \<Longrightarrow> length r < length s"
  using length_skip_ws [of s] by simp

lemma append_char_Some:
  "append_char c res = Some (t, r) \<longleftrightarrow> (\<exists>t'. res = Some (t', r) \<and> t = c # t')"
  by (auto simp: append_char_def split: option.splits)

lemma scanstring_length: "scanstring s = Some (t, r) \<Longrightarrow> length r < length s"
proof (induction s arbitrary: t r rule: scanstring.induct)
  case 1
  then show ?case by simp
next
  case (2 c cs)
  show ?case
    using "2.prems" "2.IH"
    by (fastforce simp: append_char_Some split: if_splits list.splits option.splits)
qed

lemma match_integer_length: "match_integer s = Some (i, r) \<Longrightarrow> length r < length s"
  by (auto simp: match_integer_def Let_def less_Suc_eq_le length_dropWhile_le
      intro: le_SucI split: list.splits if_splits)

lemma match_frac_length: "match_frac s = (f, r) \<Longrightarrow> length r \<le> length s"
  by (auto simp: match_frac_def  intro: le_SucI order_trans [OF length_dropWhile_le] split: list.splits if_splits)

lemma match_exp_length: "match_exp s = (e, r) \<Longrightarrow> length r \<le> length s"
  by (auto simp: match_exp_def Let_def intro: le_SucI order_trans [OF length_dropWhile_le] split: list.splits if_splits)

lemma match_number_length: "match_number s = Some (i, f, e, r) \<Longrightarrow> length r < length s"
  by (auto simp: match_number_def Let_def split: option.splits prod.splits
      dest!: match_integer_length match_frac_length match_exp_length)

lemma take_Cons_drop_length: "take n s = c # cs \<Longrightarrow> length (drop n s) < length s"
  by (cases s; cases n) auto

lemma scan_literal_length: "scan_literal s = Some (v, r) \<Longrightarrow> length r < length s"
  by (auto simp: scan_literal_def lit_def simp del: length_drop split: if_splits option.splits
      dest!: match_number_length intro: take_Cons_drop_length)

function scan_once :: "str \<Rightarrow> (pyval \<times> str) option"
  and JSONObject :: "str \<Rightarrow> (pyval \<times> str) option"
  and JSONObject_loop :: "str \<Rightarrow> ((str \<times> pyval) list \<times> str) option"
  and JSONArray :: "str \<Rightarrow> (pyval \<times> str) option"
  and JSONArray_loop :: "str \<Rightarrow> (pyval list \<times> str) option"
where
  "scan_once s =
     (case s of
        [] \<Rightarrow> None
      | nextchar # cs \<Rightarrow>
          if nextchar = 34 then
            (case scanstring cs of
               None \<Rightarrow> None
             | Some (t, r) \<Rightarrow> Some (PStr t, r))
          else if nextchar = 123 then JSONObject cs
          else if nextchar = 91 then JSONArray cs
          else scan_literal s)"
| "JSONObject s =
     (case skip_ws s of
        [] \<Rightarrow> None
      | nextchar # r \<Rightarrow>
          if nextchar = 125 then Some (PDict [], r)
          else if nextchar \<noteq> 34 then None
          else
            (case JSONObject_loop r of
               None \<Rightarrow> None
             | Some (pairs, r') \<Rightarrow> Some (PDict (dict pairs), r')))"
| "JSONObject_loop s =
     (case scanstring s of
        None \<Rightarrow> None
      | Some (key, r) \<Rightarrow>
          (case skip_ws r of
             [] \<Rightarrow> None
           | c # r1 \<Rightarrow>
               if c \<noteq> 58 then None
               else
                 (case scan_once (skip_ws r1) of
                    None \<Rightarrow> None
                  | Some (v, r2) \<Rightarrow>
                      (case skip_ws r2 of
                         [] \<Rightarrow> None
                       | nextchar # r3 \<Rightarrow>
                           if nextchar = 125 then Some ([(key, v)], r3)
                           else if nextchar \<noteq> 44 then None
                           else
                             (case skip_ws r3 of
                                [] \<Rightarrow> None
                              | q # r4 \<Rightarrow>
                                  if q \<noteq> 34 then None
                                  else
                                    (case JSONObject_loop r4 of
                                       None \<Rightarrow> None
                                     | Some (pairs, r5) \<Rightarrow> Some ((key, v) # pairs, r5)))))))"
| "JSONArray s =
     (case skip_ws s of
        [] \<Rightarrow> None
      | nextchar # r \<Rightarrow>
          if nextchar = 93 then Some (PList [], r)
          else
            (case JSONArray_loop (nextchar # r) of
               None \<Rightarrow> None
             | Some (values, r') \<Rightarrow> Some (PList values, r')))"
| "JSONArray_loop s =
     (case scan_once s of
        None \<Rightarrow> None
      | Some (v, r) \<Rightarrow>
          (case skip_ws r of
             [] \<Rightarrow> None
           | nextchar # r' \<Rightarrow>
               if nextchar = 93 then Some ([v], r')
               else if nextchar \<noteq> 44 then None
               else
                 (case JSONArray_loop (skip_ws r') of
                    None \<Rightarrow> None
                  | Some (vs, r'') \<Rightarrow> Some (v # vs, r''))))"
  by pat_completeness auto

lemma scan_once_dom_length:
  "scan_once_JSONObject_JSONObject_loop_JSONArray_JSONArray_loop_dom (Inl (Inl s1))
     \<Longrightarrow> scan_once s1 = Some (v1, r1) \<Longrightarrow> length r1 \<le> length s1"
  "scan_once_JSONObject_JSONObject_loop_JSONArray_JSONArray_loop_dom (Inl (Inr s2))
     \<Longrightarrow> JSONObject s2 = Some (v2, r2) \<Longrightarrow> length r2 \<le> length s2"
  "scan_once_JSONObject_JSONObject_loop_JSONArray_JSONArray_loop_dom (Inr (Inl s3))
     \<Longrightarrow> JSONObject_loop s3 = Some (v3, r3) \<Longrightarrow> length r3 \<le> length s3"
  "scan_once_JSONObject_JSONObject_loop_JSONArray_JSONArray_loop_dom (Inr (Inr (Inl s4)))
     \<Longrightarrow> JSONArray s4 = Some (v4, r4) \<Longrightarrow> length r4 \<le> length s4"
  "scan_once_JSONObject_JSONObject_loop_JSONArray_JSONArray_loop_dom (Inr (Inr (Inr s5)))
     \<Longrightarrow> JSONArray_loop s5 = Some (v5, r5) \<Longrightarrow> length r5 \<le> length s5"
proof (induction s1 and s2 and s3 and s4 and s5 arbitrary: v1 r1 and v2 r2 and v3 r3 and v4 r4 and v5 r5
    rule: scan_once_JSONObject_JSONObject_loop_JSONArray_JSONArray_loop.pinduct)
  case (1 s)
  note eq = "1.prems" [unfolded scan_once.psimps [OF "1.hyps"]]
  show ?case
  proof (cases s)
    case Nil
    with eq show ?thesis by simp
  next
    case (Cons c cs)
    consider "c = 34" | "c \<noteq> 34" "c = 123" | "c \<noteq> 34" "c \<noteq> 123" "c = 91"
      | "c \<noteq> 34" "c \<noteq> 123" "c \<noteq> 91" by blast
    then show ?thesis
    proof cases
      case 1
      with eq Cons show ?thesis
        by (auto split: option.splits dest!: scanstring_length)
    next
      case 2
      with eq Cons have "JSONObject cs = Some (v1, r1)" by simp
      from "1.IH"(1) [OF Cons 2 this] Cons show ?thesis by simp
    next
      case 3
      with eq Cons have "JSONArray cs = Some (v1, r1)" by simp
      from "1.IH"(2) [OF Cons 3 this] Cons show ?thesis by simp
    next
      case 4
      with eq Cons have "scan_literal s = Some (v1, r1)" by simp
      then show ?thesis by (auto dest: scan_literal_length)
    qed
  qed
next
  case (2 s)
  note eq = "2.prems" [unfolded JSONObject.psimps [OF "2.hyps"]]
  show ?case
  proof (cases "skip_ws s")
    case Nil
    with eq show ?thesis by simp
  next
    case (Cons c r)
    note len = skip_ws_Cons [OF Cons]
    show ?thesis
    proof (cases "c = 125")
      case True
      with eq Cons len show ?thesis by simp
    next
      case False
      with eq Cons have c: "c = 34" by (simp split: if_splits)
      with eq Cons False obtain pairs where "JSONObject_loop r = Some (pairs, r2)"
        by (auto split: option.splits)
      from "2.IH" [OF Cons False _ this] c len show ?thesis by simp
    qed
  qed
next
  case (3 s)
  note eq = "3.prems" [unfolded JSONObject_loop.psimps [OF "3.hyps"]]
  from eq obtain key r where key: "scanstring s = Some (key, r)"
    by (auto split: option.splits)
  from eq key obtain c ra where c: "skip_ws r = c # ra"
    by (auto split: list.splits)
  from eq key c have c58: "\<not> c \<noteq> 58" by (auto split: if_splits)
  from eq key c c58 obtain v rb where v: "scan_once (skip_ws ra) = Some (v, rb)"
    by (auto split: option.splits)
  from eq key c c58 v obtain n rc where n: "skip_ws rb = n # rc"
    by (auto split: list.splits)
  have l1: "length r < length s" using key by (rule scanstring_length)
  have l2: "length ra < length r" using c by (rule skip_ws_Cons)
  have l3: "length rb \<le> length (skip_ws ra)"
    using "3.IH"(1) [OF key refl c c58 v] .
  have l4: "length rc < length rb" using n by (rule skip_ws_Cons)
  have l5: "length rb < length s"
    using l1 l2 l3 length_skip_ws [of ra] by linarith
  show ?case
  proof (cases "n = 125")
    case True
    with eq key c c58 v n l4 l5 show ?thesis by simp
  next
    case False
    with eq key c c58 v n have n44: "\<not> n \<noteq> 44" by (auto split: if_splits)
    from eq key c c58 v n False n44 obtain q rd where q: "skip_ws rc = q # rd"
      by (auto split: list.splits)
    from eq key c c58 v n False n44 q have q34: "\<not> q \<noteq> 34" by (auto split: if_splits)
    from eq key c c58 v n False n44 q q34 obtain pairs where
      p: "JSONObject_loop rd = Some (pairs, r3)"
      by (auto split: option.splits)
    have "length r3 \<le> length rd"
      using "3.IH"(2) [OF key refl c c58 v refl n False n44 q q34 p] .
    with skip_ws_Cons [OF q] l4 l5 show ?thesis by linarith
  qed
next
  case (4 s)
  note eq = "4.prems" [unfolded JSONArray.psimps [OF "4.hyps"]]
  show ?case
  proof (cases "skip_ws s")
    case Nil
    with eq show ?thesis by simp
  next
    case (Cons c r)
    note len = length_skip_ws [of s]
    show ?thesis
    proof (cases "c = 93")
      case True
      with eq Cons len show ?thesis by simp
    next
      case False
      with eq Cons obtain vs where "JSONArray_loop (c # r) = Some (vs, r4)"
        by (auto split: option.splits)
      from "4.IH" [OF Cons False this] Cons len show ?thesis by simp
    qed
  qed
next
  case (5 s)
  note eq = "5.prems" [unfolded JSONArray_loop.psimps [OF "5.hyps"]]
  from eq obtain v r where v: "scan_once s = Some (v, r)"
    by (auto split: option.splits)
  from eq v obtain n ra where n: "skip_ws r = n # ra"
    by (auto split: list.splits)
  have l1: "length r \<le> length s" using "5.IH"(1) [OF v] .
  have l2: "length ra < length r" using n by (rule skip_ws_Cons)
  show ?case
  proof (cases "n = 93")
    case True
    with eq v n l1 l2 show ?thesis by simp
  next
    case False
    with eq v n have n44: "\<not> n \<noteq> 44" by (auto split: if_splits)
    from eq v n False n44 obtain vs where vs: "JSONArray_loop (skip_ws ra) = Some (vs, r5)"
      by (auto split: option.splits)
    have "length r5 \<le> length (skip_ws ra)"
      using "5.IH"(2) [OF v refl n False n44 vs] .
    with length_skip_ws [of ra] l1 l2 show ?thesis by linarith
  qed
qed

termination scan_once
proof (relation "measure (\<lambda>x. case x of
          Inl (Inl s) \<Rightarrow> 3 * length s
        | Inl (Inr s) \<Rightarrow> 3 * length s + 2
        | Inr (Inl s) \<Rightarrow> 3 * length s + 1
        | Inr (Inr (Inl s)) \<Rightarrow> 3 * length s + 2
        | Inr (Inr (Inr s)) \<Rightarrow> 3 * length s + 1)", goal_cases)
  case 1
  show ?case by simp
next
  case (2 s nextchar cs)
  then show ?case by simp
next
  case (3 s nextchar cs)
  then show ?case by simp
next
  case (4 s nextchar r)
  then show ?case using skip_ws_Cons [of s nextchar r] by simp
next
  case (5 s x2 key r c r1)
  then show ?case
    using scanstring_length [of s key r] skip_ws_Cons [of r c r1] length_skip_ws [of r1]
    by simp
next
  case (6 s x2 key r c r1 x2a v r2 nextchar r3 q r4)
  then show ?case
    using scanstring_length [of s key r] skip_ws_Cons [of r c r1] length_skip_ws [of r1]
      scan_once_dom_length(1) [of "skip_ws r1" v r2]
      skip_ws_Cons [of r2 nextchar r3] skip_ws_Cons [of r3 q r4]
    by simp
next
  case (7 s nextchar r)
  then show ?case using length_skip_ws [of s] by simp
next
  case (8 s)
  then show ?case by simp
next
  case (9 s x2 v r nextchar r')
  then show ?case
    using scan_once_dom_length(1) [of s v r] skip_ws_Cons [of r nextchar r']
      length_skip_ws [of r']
    by simp
qed

text \<open>
  \<open>json.loads(s)\<close> for a string: a leading byte order mark is refused, and the value may
  be surrounded by whitespace only.
\<close>

definition json_loads :: "str \<Rightarrow> exn + pyval" where
  "json_loads s =
     (if take 1 s = [0xfeff] then Inl JSONDecodeError
      else
        (case scan_once (skip_ws s) of
           None \<Rightarrow> Inl JSONDecodeError
         | Some (obj, r) \<Rightarrow> if skip_ws r \<noteq> [] then Inl JSONDecodeError else Inr obj))"





declare scan_once.simps [simp del] JSONObject.simps [simp del] JSONObject_loop.simps [simp del]
  JSONArray.simps [simp del] JSONArray_loop.simps [simp del] scanstring.simps [simp del]

section \<open>The \<open>json\<close> module: encoding\<close>

text \<open>
  \<open>json.dumps(obj, cls=ObjectIdEncoder)\<close> with the default settings: ASCII-only output
  and the separators \<open>", "\<close> and \<open>": "\<close> (\<open>json/encoder.py\<close>).
\<close>

definition hexdigit :: "nat \<Rightarrow> nat" where
  "hexdigit d = (if d < 10 then 48 + d else 87 + d)"

text \<open>
  \<open>'{0:04x}'.format(n)\<close>. Both uses pass a number below \<open>0x10000\<close>, for which the
  result has exactly four digits.
\<close>

definition format_04x :: "nat \<Rightarrow> str" where
  "format_04x n =
     [hexdigit (n div 4096 mod 16), hexdigit (n div 256 mod 16),
      hexdigit (n div 16 mod 16), hexdigit (n mod 16)]"

definition ESCAPE_DCT :: "nat \<Rightarrow> str option" where
  "ESCAPE_DCT c =
     (if c = 92 then Some [92, 92]
      else if c = 34 then Some [92, 34]
      else if c = 8 then Some [92, 98]
      else if c = 12 then Some [92, 102]
      else if c = 10 then Some [92, 110]
      else if c = 13 then Some [92, 114]
      else if c = 9 then Some [92, 116]
      else if c < 0x20 then Some ([92, 117] @ format_04x c)
      else None)"

text \<open>The pattern \<open>ESCAPE_ASCII\<close>: a backslash, a double quote, or anything outside \<open>' '..'~'\<close>.\<close>

definition ESCAPE_ASCII :: "nat \<Rightarrow> bool" where
  "ESCAPE_ASCII c = (c = 92 \<or> c = 34 \<or> \<not> (32 \<le> c \<and> c \<le> 126))"

definition replace :: "nat \<Rightarrow> str" where
  "replace c =
     (case ESCAPE_DCT c of
        Some e \<Rightarrow> e
      | None \<Rightarrow>
          if c < 0x10000 then [92, 117] @ format_04x c
          else
            (let n = c - 0x10000;
                 s1 = 0xd800 OR (drop_bit 10 n AND 0x3ff);
                 s2 = 0xdc00 OR (n AND 0x3ff)
             in [92, 117] @ format_04x s1 @ [92, 117] @ format_04x s2))"

text \<open>\<open>ESCAPE_ASCII.sub(replace, s)\<close>: every character the pattern matches is replaced.\<close>

definition ESCAPE_ASCII_sub :: "str \<Rightarrow> str" where
  "ESCAPE_ASCII_sub s = concat (map (\<lambda>c. if ESCAPE_ASCII c then replace c else [c]) s)"

definition py_encode_basestring_ascii :: "str \<Rightarrow> str" where
  "py_encode_basestring_ascii s = [34] @ ESCAPE_ASCII_sub s @ [34]"

text \<open>\<open>int.__repr__\<close>: the decimal digits.\<close>

fun nat_repr :: "nat \<Rightarrow> str" where
  "nat_repr n = (if n < 10 then [48 + n] else nat_repr (n div 10) @ [48 + n mod 10])"

declare nat_repr.simps [simp del]

definition int_repr :: "int \<Rightarrow> str" where
  "int_repr i = (if i < 0 then 45 # nat_repr (nat (- i)) else nat_repr (nat i))"

text \<open>\<open>str(ObjectId)\<close>: the twelve bytes of the identifier as 24 hexadecimal digits.\<close>

fun hex_digits :: "nat \<Rightarrow> nat \<Rightarrow> str" where
  "hex_digits 0 n = []"
| "hex_digits (Suc k) n = hex_digits k (n div 16) @ [hexdigit (n mod 16)]"

definition str_ObjectId :: "nat \<Rightarrow> str" where
  "str_ObjectId n = hex_digits 24 n"

fun join :: "str \<Rightarrow> str list \<Rightarrow> str" where
  "join sep [] = []"
| "join sep [x] = x"
| "join sep (x # y # ys) = x @ sep @ join sep (y # ys)"

text \<open>
  \<open>ObjectIdEncoder.default\<close> turns an \<open>ObjectId\<close> into its string, which is then
  encoded as a string. Every other value is one the encoder knows.
\<close>

fun json_dumps :: "pyval \<Rightarrow> str" where
  "json_dumps PNone = lit ''null''"
| "json_dumps (PBool b) = (if b then lit ''true'' else lit ''false'')"
| "json_dumps (PInt i) = int_repr i"
| "json_dumps (PFloat f) = f"
| "json_dumps (PStr s) = py_encode_basestring_ascii s"
| "json_dumps (PList xs) = lit ''['' @ join (lit '', '') (map json_dumps xs) @ lit '']''"
| "json_dumps (PDict d) =
     lit ''{'' @
     join (lit '', '')
       (map (\<lambda>kv. py_encode_basestring_ascii (fst kv) @ lit '': '' @ json_dumps (snd kv)) d) @
     lit ''}''"
| "json_dumps (PObjectId n) = py_encode_basestring_ascii (str_ObjectId n)"

section \<open>The document store\<close>

text \<open>
  A MongoDB collection is the list of its documents in insertion order. The handlers
  query by one field only. \<open>find_one({field: v})\<close> returns the first document whose
  field equals \<open>v\<close>; a document without the field matches \<open>None\<close>. This is the
  store's behaviour for the values registration puts there, which are strings; query
  operators and matching inside arrays are not modelled. Failures of the connection to
  the store are not modelled either.
\<close>

type_synonym document = "(str \<times> pyval) list"

type_synonym collection = "document list"

definition matches :: "document \<Rightarrow> str \<Rightarrow> pyval \<Rightarrow> bool" where
  "matches doc field v = (case map_of doc field of None \<Rightarrow> v = PNone | Some x \<Rightarrow> x = v)"

definition find_one :: "collection \<Rightarrow> str \<Rightarrow> pyval \<Rightarrow> document option" where
  "find_one coll field v = find (\<lambda>doc. matches doc field v) coll"

text \<open>
  \<open>insert_one(doc)\<close> adds a fresh \<open>_id\<close> to the document (the handlers never pass one)
  and appends it. The source creates no index. Whether the deployment has a unique index
  on \<open>register_number\<close> is a parameter: with one, inserting a second document with the
  same value raises \<open>DuplicateKeyError\<close>.
\<close>

definition insert_one :: "bool \<Rightarrow> nat \<Rightarrow> collection \<Rightarrow> document \<Rightarrow> exn + (document \<times> collection)" where
  "insert_one unique oid coll doc =
     (let doc' = doc @ [(lit ''_id'', PObjectId oid)]
      in if unique \<and>
            find_one coll (lit ''register_number'')
              (case map_of doc' (lit ''register_number'') of None \<Rightarrow> PNone | Some v \<Rightarrow> v) \<noteq> None
         then Inl DuplicateKeyError
         else Inr (doc', coll @ [doc']))"

section \<open>The application\<close>

datatype script = REGISTRATION_SCRIPT_URL | VALIDATION_SCRIPT_URL

record mail =
  recipient_email :: pyval
  name :: pyval
  register_number :: pyval
  qr_image :: str

text \<open>
  The state the handlers read and write: the two collections, the next \<open>ObjectId\<close> the
  driver generates, and what has left the process (requests posted to the spreadsheet
  scripts, mails handed to the SMTP server, flashed messages). A QR image is
  represented by the text it encodes.
\<close>

record world =
  registration_collection :: collection
  validation_collection :: collection
  unique_index :: bool
  next_ObjectId :: nat
  posted :: "(script \<times> str) list"
  outbox :: "mail list"
  flashed :: "str list"

datatype http_method = GET | POST

text \<open>
  A request: \<open>form\<close> is \<open>request.form\<close>, \<open>json\<close> is \<open>request.json\<close>, the body
  already parsed by the framework.
\<close>

record request =
  "method" :: http_method
  path :: str
  form :: "(str \<times> str) list"
  json :: pyval

text \<open>
  What the client receives: a rendered template, a redirect to an endpoint, the object
  passed to \<open>jsonify\<close>, an error status produced by the framework itself, or an exception
  that leaves the handler (an internal server error).
\<close>

datatype response =
    Html str
  | Redirect str
  | Json pyval
  | HttpError nat
  | Unhandled exn

definition required_fields :: "str list" where
  "required_fields =
     [lit ''name'', lit ''degree'', lit ''class_section'', lit ''year'',
      lit ''register_number'', lit ''email'', lit ''phone'']"

text \<open>\<open>d.get(k)\<close> on a dict.\<close>

definition dict_get :: "(str \<times> pyval) list \<Rightarrow> str \<Rightarrow> pyval" where
  "dict_get d k = (case map_of d k of None \<Rightarrow> PNone | Some v \<Rightarrow> v)"

text \<open>
  The dict display \<open>{k1: d[k1], k2: d[k2], ...}\<close>: the subscriptions are evaluated from
  left to right and the first missing key raises \<open>KeyError\<close>.
\<close>

fun getitems :: "(str \<times> pyval) list \<Rightarrow> str list \<Rightarrow> exn + (str \<times> pyval) list" where
  "getitems d [] = Inr []"
| "getitems d (k # ks) =
     (case map_of d k of
        None \<Rightarrow> Inl KeyError
      | Some v \<Rightarrow> (case getitems d ks of Inl e \<Rightarrow> Inl e | Inr items \<Rightarrow> Inr ((k, v) # items)))"

text \<open>
  Truth value testing. A float literal is zero when its mantissa has no digit other
  than \<open>0\<close> (underflow of a tiny literal to zero is not modelled).
\<close>

definition float_is_zero :: "str \<Rightarrow> bool" where
  "float_is_zero f =
     (f \<noteq> lit ''NaN'' \<and> f \<noteq> lit ''Infinity'' \<and> f \<noteq> lit ''-Infinity'' \<and>
      list_all (\<lambda>c. \<not> (49 \<le> c \<and> c \<le> 57)) (takeWhile (\<lambda>c. c \<noteq> 101 \<and> c \<noteq> 69) f))"

fun truthy :: "pyval \<Rightarrow> bool" where
  "truthy PNone = False"
| "truthy (PBool b) = b"
| "truthy (PInt i) = (i \<noteq> 0)"
| "truthy (PFloat f) = (\<not> float_is_zero f)"
| "truthy (PStr s) = (s \<noteq> [])"
| "truthy (PList xs) = (xs \<noteq> [])"
| "truthy (PDict d) = (d \<noteq> [])"
| "truthy (PObjectId n) = True"

definition message :: "bool \<Rightarrow> string \<Rightarrow> response" where
  "message valid text = Json (PDict [(lit ''valid'', PBool valid), (lit ''message'', PStr (lit text))])"

subsection \<open>\<open>validate\<close>\<close>

text \<open>
  The body of the \<open>try\<close> statement of \<open>validate\<close>. It returns the response or the
  exception raised, with the state at that point. \<open>json.loads\<close> raises \<open>TypeError\<close> for a
  value that is not a string, and \<open>attendee_info.get\<close> raises \<open>AttributeError\<close> when the
  decoded value is not a dict. A document returned by \<open>find_one\<close> is never empty, so its
  truth value is whether one was found. \<open>post_result\<close> is what \<open>requests.post\<close> does: it
  raises, or returns a response with a status code.
\<close>

definition validate_try :: "world \<Rightarrow> exn + nat \<Rightarrow> pyval \<Rightarrow> (exn + response) \<times> world" where
  "validate_try w post_result qr_data =
     (case (case qr_data of PStr s \<Rightarrow> json_loads s | _ \<Rightarrow> Inl TypeError) of
        Inl e \<Rightarrow> (Inl e, w)
      | Inr attendee_info \<Rightarrow>
          (case attendee_info of
             PDict d \<Rightarrow>
               (let register_number = dict_get d (lit ''register_number'') in
                if \<not> list_all (\<lambda>field. map_of d field \<noteq> None) required_fields
                  then (Inr (message False ''Missing required information in QR code.''), w)
                else
                  (case find_one (registration_collection w) (lit ''register_number'') register_number of
                     None \<Rightarrow> (Inr (message False ''Registration not found. Please register first.''), w)
                   | Some existing_registration \<Rightarrow>
                       (case find_one (validation_collection w) (lit ''register_number'') register_number of
                          Some existing_validation \<Rightarrow>
                            (Inr (message False ''This QR code has already been scanned.''), w)
                        | None \<Rightarrow>
                            (case getitems d required_fields of
                               Inl e \<Rightarrow> (Inl e, w)
                             | Inr validation_data \<Rightarrow>
                                 (case insert_one (unique_index w) (next_ObjectId w)
                                         (validation_collection w) validation_data of
                                    Inl e \<Rightarrow> (Inl e, w\<lparr>next_ObjectId := Suc (next_ObjectId w)\<rparr>)
                                  | Inr (inserted, coll) \<Rightarrow>
                                      (let w1 = w\<lparr>validation_collection := coll,
                                                  next_ObjectId := Suc (next_ObjectId w)\<rparr>;
                                           validation_data =
                                             dict_set inserted (lit ''_id'')
                                               (PStr (str_ObjectId (next_ObjectId w)));
                                           json_data = json_dumps (PDict validation_data)
                                       in case post_result of
                                            Inl e \<Rightarrow> (Inl e, w1)
                                          | Inr status_code \<Rightarrow>
                                              (let w2 = w1\<lparr>posted := posted w1 @
                                                           [(VALIDATION_SCRIPT_URL, json_data)]\<rparr>
                                               in if status_code \<noteq> 200
                                                    then (Inr (message False
                                                            ''Failed to save data to Google Sheets.''), w2)
                                                  else
                                                    (Inr (Json (PDict
                                                       [(lit ''valid'', PBool True),
                                                        (lit ''attendee'', PDict validation_data),
                                                        (lit ''message'',
                                                         PStr (lit ''Validation successful. Data saved.''))])),
                                                     w2))))))))
           | _ \<Rightarrow> (Inl AttributeError, w)))"

text \<open>
  The handler: \<open>request.json.get\<close> raises \<open>AttributeError\<close> when the body is not a
  JSON object; the two \<open>except\<close> clauses catch \<open>JSONDecodeError\<close> and \<open>KeyError\<close>, every
  other exception leaves the handler.
\<close>

definition validate :: "world \<Rightarrow> exn + nat \<Rightarrow> request \<Rightarrow> response \<times> world" where
  "validate w post_result request =
     (if method request = GET then (Html (lit ''validation.html''), w)
      else
        (case json request of
           PDict body \<Rightarrow>
             (let qr_data = dict_get body (lit ''qr_data'') in
              if \<not> truthy qr_data then (message False ''No QR data provided.'', w)
              else
                (case validate_try w post_result qr_data of
                   (Inr r, w') \<Rightarrow> (r, w')
                 | (Inl JSONDecodeError, w') \<Rightarrow> (message False ''Invalid QR code format.'', w')
                 | (Inl KeyError, w') \<Rightarrow>
                     (message False ''Missing required information in QR code.'', w')
                 | (Inl e, w') \<Rightarrow> (Unhandled e, w')))
         | _ \<Rightarrow> (Unhandled AttributeError, w)))"

subsection \<open>\<open>register\<close>\<close>

text \<open>
  \<open>request.form[k]\<close> raises a \<open>BadRequestKeyError\<close> for a missing field, which the
  framework answers with status 400. \<open>smtp_ok\<close> tells whether the SMTP session of
  \<open>send_email_with_qr\<close> succeeds; its failure is caught there and flashed.
\<close>

definition send_email_with_qr :: "world \<Rightarrow> bool \<Rightarrow> pyval \<Rightarrow> pyval \<Rightarrow> pyval \<Rightarrow> str \<Rightarrow> world" where
  "send_email_with_qr w smtp_ok nm regno email qr =
     (if smtp_ok
        then w\<lparr>outbox := outbox w @
               [\<lparr>recipient_email = email, name = nm, register_number = regno, qr_image = qr\<rparr>]\<rparr>
      else w\<lparr>flashed := flashed w @
               [lit ''Failed to send email with QR code. Please contact the event organizers.'']\<rparr>)"

definition register :: "world \<Rightarrow> exn + nat \<Rightarrow> bool \<Rightarrow> request \<Rightarrow> response \<times> world" where
  "register w post_result smtp_ok request =
     (case getitems (map (\<lambda>kv. (fst kv, PStr (snd kv))) (form request)) required_fields of
        Inl e \<Rightarrow> (HttpError 400, w)
      | Inr attendee_info \<Rightarrow>
          (case find_one (registration_collection w) (lit ''register_number'')
                  (dict_get attendee_info (lit ''register_number'')) of
             Some existing_registration \<Rightarrow>
               (Redirect (lit ''index''),
                w\<lparr>flashed := flashed w @
                   [lit ''You have already registered. Please check your details and try again.'']\<rparr>)
           | None \<Rightarrow>
               (case insert_one (unique_index w) (next_ObjectId w)
                       (registration_collection w) attendee_info of
                  Inl e \<Rightarrow> (Unhandled e, w\<lparr>next_ObjectId := Suc (next_ObjectId w)\<rparr>)
                | Inr (inserted, coll) \<Rightarrow>
                    (let w1 = w\<lparr>registration_collection := coll,
                                next_ObjectId := Suc (next_ObjectId w)\<rparr>;
                         attendee_info = dict_set inserted (lit ''_id'') (PObjectId (next_ObjectId w));
                         json_data = json_dumps (PDict attendee_info)
                     in case post_result of
                          Inl e \<Rightarrow> (Unhandled e, w1)
                        | Inr status_code \<Rightarrow>
                            (let w2 = w1\<lparr>posted := posted w1 @ [(REGISTRATION_SCRIPT_URL, json_data)]\<rparr>
                             in if status_code \<noteq> 200
                                  then (Redirect (lit ''index''),
                                        w2\<lparr>flashed := flashed w2 @
                                           [lit ''Failed to save data to Google Sheets. Please try again later.'']\<rparr>)
                                else
                                  (Html (lit ''thanks.html''),
                                   send_email_with_qr w2 smtp_ok
                                     (dict_get attendee_info (lit ''name''))
                                     (dict_get attendee_info (lit ''register_number''))
                                     (dict_get attendee_info (lit ''email''))
                                     json_data))))))"

subsection \<open>Routing\<close>




subsection \<open>Requests that overlap\<close>

text \<open>
  The server may handle two requests at once. Each call into the store is one operation
  of the database and happens at one instant; between two calls a handler touches its
  own variables only. A validation request is therefore a thread that moves in steps,
  one per outside call: the lookup in the registration collection (with the decoding
  before it), the lookup in the validation collection, the insert, and the request to
  the ledger (with the response after it).
\<close>

datatype thread =
    Start request
  | Checked "(str \<times> pyval) list"
  | Unused "(str \<times> pyval) list"
  | Inserted "(str \<times> pyval) list"
  | Done response

text \<open>The two \<open>except\<close> clauses of \<open>validate\<close>; any other exception leaves the handler.\<close>

definition except :: "exn \<Rightarrow> response" where
  "except e =
     (case e of
        JSONDecodeError \<Rightarrow> message False ''Invalid QR code format.''
      | KeyError \<Rightarrow> message False ''Missing required information in QR code.''
      | _ \<Rightarrow> Unhandled e)"

fun step :: "world \<Rightarrow> exn + nat \<Rightarrow> thread \<Rightarrow> thread \<times> world" where
  "step w post_result (Start request) =
     (if method request = GET then (Done (Html (lit ''validation.html'')), w)
      else
        (case json request of
           PDict body \<Rightarrow>
             (let qr_data = dict_get body (lit ''qr_data'') in
              if \<not> truthy qr_data then (Done (message False ''No QR data provided.''), w)
              else
                (case (case qr_data of PStr s \<Rightarrow> json_loads s | _ \<Rightarrow> Inl TypeError) of
                   Inl e \<Rightarrow> (Done (except e), w)
                 | Inr attendee_info \<Rightarrow>
                     (case attendee_info of
                        PDict d \<Rightarrow>
                          if \<not> list_all (\<lambda>field. map_of d field \<noteq> None) required_fields
                            then (Done (message False ''Missing required information in QR code.''), w)
                          else
                            (case find_one (registration_collection w) (lit ''register_number'')
                                    (dict_get d (lit ''register_number'')) of
                               None \<Rightarrow>
                                 (Done (message False
                                    ''Registration not found. Please register first.''), w)
                             | Some existing_registration \<Rightarrow> (Checked d, w))
                      | _ \<Rightarrow> (Done (except AttributeError), w))))
         | _ \<Rightarrow> (Done (Unhandled AttributeError), w)))"
| "step w post_result (Checked d) =
     (case find_one (validation_collection w) (lit ''register_number'')
             (dict_get d (lit ''register_number'')) of
        Some existing_validation \<Rightarrow>
          (Done (message False ''This QR code has already been scanned.''), w)
      | None \<Rightarrow> (Unused d, w))"
| "step w post_result (Unused d) =
     (case getitems d required_fields of
        Inl e \<Rightarrow> (Done (except e), w)
      | Inr validation_data \<Rightarrow>
          (case insert_one (unique_index w) (next_ObjectId w) (validation_collection w)
                  validation_data of
             Inl e \<Rightarrow> (Done (except e), w\<lparr>next_ObjectId := Suc (next_ObjectId w)\<rparr>)
           | Inr (inserted, coll) \<Rightarrow>
               (Inserted (dict_set inserted (lit ''_id'') (PStr (str_ObjectId (next_ObjectId w)))),
                w\<lparr>validation_collection := coll, next_ObjectId := Suc (next_ObjectId w)\<rparr>)))"
| "step w post_result (Inserted validation_data) =
     (case post_result of
        Inl e \<Rightarrow> (Done (except e), w)
      | Inr status_code \<Rightarrow>
          (Done (if status_code \<noteq> 200
                 then message False ''Failed to save data to Google Sheets.''
                 else Json (PDict [(lit ''valid'', PBool True),
                                   (lit ''attendee'', PDict validation_data),
                                   (lit ''message'', PStr (lit ''Validation successful. Data saved.''))])),
           w\<lparr>posted := posted w @ [(VALIDATION_SCRIPT_URL, json_dumps (PDict validation_data))]\<rparr>))"
| "step w post_result (Done r) = (Done r, w)"

text \<open>One thread running alone for \<open>n\<close> steps.\<close>

fun steps :: "nat \<Rightarrow> world \<Rightarrow> exn + nat \<Rightarrow> thread \<Rightarrow> thread \<times> world" where
  "steps 0 w post_result t = (t, w)"
| "steps (Suc n) w post_result t =
     (case step w post_result t of (t', w') \<Rightarrow> steps n w' post_result t')"


section \<open>Notions used in the properties\<close>

text \<open>A POST request whose JSON body is an object carrying the string \<open>qr\<close> as \<open>qr_data\<close>.\<close>

definition posts_qr :: "request \<Rightarrow> str \<Rightarrow> bool" where
  "posts_qr request qr \<longleftrightarrow>
     method request = POST \<and>
     (case json request of
        PDict body \<Rightarrow> dict_get body (lit ''qr_data'') = PStr qr
      | _ \<Rightarrow> False)"

text \<open>The payload \<open>qr\<close> decodes to the object \<open>d\<close>, which has all seven required fields.\<close>

definition encodes :: "str \<Rightarrow> (str \<times> pyval) list \<Rightarrow> bool" where
  "encodes qr d \<longleftrightarrow>
     json_loads qr = Inr (PDict d) \<and> list_all (\<lambda>field. map_of d field \<noteq> None) required_fields"

text \<open>The store holds an attendee record, or a validation record, for a register number.\<close>

definition registered :: "world \<Rightarrow> pyval \<Rightarrow> bool" where
  "registered w r \<longleftrightarrow> find_one (registration_collection w) (lit ''register_number'') r \<noteq> None"

definition validated :: "world \<Rightarrow> pyval \<Rightarrow> bool" where
  "validated w r \<longleftrightarrow> find_one (validation_collection w) (lit ''register_number'') r \<noteq> None"

text \<open>The response of a successful validation of the decoded object \<open>d\<close> under identifier \<open>oid\<close>.\<close>

definition accepted :: "(str \<times> pyval) list \<Rightarrow> nat \<Rightarrow> response" where
  "accepted d oid =
     Json (PDict
       [(lit ''valid'', PBool True),
        (lit ''attendee'',
         PDict (map (\<lambda>k. (k, dict_get d k)) required_fields @
                [(lit ''_id'', PStr (str_ObjectId oid))])),
        (lit ''message'', PStr (lit ''Validation successful. Data saved.''))])"


text \<open>
  The state after the insert of the validation record for the decoded object \<open>d\<close>, and
  after the request to the ledger that follows it.
\<close>

definition after_insert :: "world \<Rightarrow> (str \<times> pyval) list \<Rightarrow> world" where
  "after_insert w d =
     w\<lparr>validation_collection := validation_collection w @
         [map (\<lambda>k. (k, dict_get d k)) required_fields @
          [(lit ''_id'', PObjectId (next_ObjectId w))]],
       next_ObjectId := Suc (next_ObjectId w)\<rparr>"

definition after_sync :: "world \<Rightarrow> (str \<times> pyval) list \<Rightarrow> world" where
  "after_sync w d =
     (after_insert w d)\<lparr>posted := posted w @
        [(VALIDATION_SCRIPT_URL,
          json_dumps (PDict (map (\<lambda>k. (k, dict_get d k)) required_fields @
            [(lit ''_id'', PStr (str_ObjectId (next_ObjectId w)))])))]\<rparr>"








subsection \<open>A concrete scenario\<close>

text \<open>
  Asha registers with register number \<open>R100\<close> in an empty store; the payload of her QR
  code is then scanned.
\<close>

definition asha_form :: "(str \<times> str) list" where
  "asha_form =
     [(lit ''name'', lit ''Asha''), (lit ''degree'', lit ''B.E''),
      (lit ''class_section'', lit ''A''), (lit ''year'', lit ''2''),
      (lit ''register_number'', lit ''R100''), (lit ''email'', lit ''a@x.com''),
      (lit ''phone'', lit ''9876543210'')]"

definition asha_info :: "(str \<times> pyval) list" where
  "asha_info = map (\<lambda>kv. (fst kv, PStr (snd kv))) asha_form"


definition asha_qr :: str where
  "asha_qr = json_dumps (PDict (asha_info @ [(lit ''_id'', PObjectId 31415926535)]))"


definition world1 :: world where
  "world1 =
     \<lparr>registration_collection = [asha_info @ [(lit ''_id'', PObjectId 31415926535)]],
      validation_collection = [], unique_index = False,
      next_ObjectId = 31415926536, posted = [(REGISTRATION_SCRIPT_URL, asha_qr)],
      outbox = [\<lparr>recipient_email = PStr (lit ''a@x.com''), name = PStr (lit ''Asha''),
                 register_number = PStr (lit ''R100''), qr_image = asha_qr\<rparr>],
      flashed = []\<rparr>"

definition register_request :: "(str \<times> str) list \<Rightarrow> request" where
  "register_request f = \<lparr>method = POST, path = lit ''/register'', form = f, json = PNone\<rparr>"

definition scan :: "str \<Rightarrow> request" where
  "scan qr =
     \<lparr>method = POST, path = lit ''/$i$tvali'', form = [], json = PDict [(lit ''qr_data'', PStr qr)]\<rparr>"

section \<open>Evaluation\<close>

lemmas json_eval =
  json_loads_def skip_ws_def is_ws_def scan_literal_def match_number_def match_integer_def
  match_frac_def match_exp_def is_digit_def parse_int_def digits_value_def decode_uXXXX_def
  hexval_def BACKSLASH_def append_char_def push_bit_eq_mult dict_def lit_def
  scan_once.simps JSONObject.simps JSONObject_loop.simps JSONArray.simps JSONArray_loop.simps
  scanstring.simps






lemma posts_qr_iff:
  "posts_qr request qr \<longleftrightarrow>
     method request = POST \<and>
     (\<exists>body. json request = PDict body \<and> dict_get body (lit ''qr_data'') = PStr qr)"
  unfolding posts_qr_def by (cases "json request") simp_all

lemma scan_posts_qr: "posts_qr (scan qr) qr"
  by (simp add: posts_qr_iff scan_def dict_get_def)


lemma world1_registered: "registered world1 (PStr (lit ''R100''))"
  by (simp add: registered_def world1_def find_one_def matches_def asha_info_def asha_form_def)


section \<open>The validation state machine\<close>


lemma json_loads_error: "json_loads s = Inl e \<Longrightarrow> e = JSONDecodeError"
  by (auto simp: json_loads_def split: if_splits option.splits)


lemma getitems_present:
  "list_all (\<lambda>field. map_of d field \<noteq> None) ks \<Longrightarrow>
   getitems d ks = Inr (map (\<lambda>k. (k, dict_get d k)) ks)"
  by (induction ks) (auto simp: dict_get_def)


lemma insert_one_fields:
  "find_one coll (lit ''register_number'') (dict_get d (lit ''register_number'')) = None \<Longrightarrow>
   insert_one unique oid coll (map (\<lambda>k. (k, dict_get d k)) required_fields) =
     Inr (map (\<lambda>k. (k, dict_get d k)) required_fields @ [(lit ''_id'', PObjectId oid)],
          coll @ [map (\<lambda>k. (k, dict_get d k)) required_fields @ [(lit ''_id'', PObjectId oid)]])"
  by (simp add: insert_one_def required_fields_def Let_def)

lemma dict_set_id:
  "dict_set (map (\<lambda>k. (k, dict_get d k)) required_fields @ [(lit ''_id'', x)]) (lit ''_id'') y
   = map (\<lambda>k. (k, dict_get d k)) required_fields @ [(lit ''_id'', y)]"
  by (simp add: required_fields_def)


lemma validate_posts_qr:
  assumes "posts_qr request qr" and "qr \<noteq> []"
  shows "validate w post_result request =
     (case validate_try w post_result (PStr qr) of
        (Inr r, w') \<Rightarrow> (r, w')
      | (Inl JSONDecodeError, w') \<Rightarrow> (message False ''Invalid QR code format.'', w')
      | (Inl KeyError, w') \<Rightarrow> (message False ''Missing required information in QR code.'', w')
      | (Inl e, w') \<Rightarrow> (Unhandled e, w'))"
  using assms by (auto simp: posts_qr_iff validate_def Let_def)

lemma validate_try_unregistered:
  assumes "encodes qr d" and "\<not> registered w (dict_get d (lit ''register_number''))"
  shows "validate_try w post_result (PStr qr) =
     (Inr (message False ''Registration not found. Please register first.''), w)"
  using assms by (simp add: validate_try_def encodes_def registered_def Let_def)

lemma validate_try_used:
  assumes "encodes qr d" and "registered w (dict_get d (lit ''register_number''))"
    and "validated w (dict_get d (lit ''register_number''))"
  shows "validate_try w post_result (PStr qr) =
     (Inr (message False ''This QR code has already been scanned.''), w)"
  using assms by (auto simp add: validate_try_def encodes_def registered_def validated_def Let_def)

lemma validate_try_insert:
  assumes "encodes qr d" and "registered w (dict_get d (lit ''register_number''))"
    and "\<not> validated w (dict_get d (lit ''register_number''))"
  shows "validate_try w post_result (PStr qr) =
     (let doc = map (\<lambda>k. (k, dict_get d k)) required_fields @
                  [(lit ''_id'', PObjectId (next_ObjectId w))];
          data = map (\<lambda>k. (k, dict_get d k)) required_fields @
                   [(lit ''_id'', PStr (str_ObjectId (next_ObjectId w)))];
          w1 = w\<lparr>validation_collection := validation_collection w @ [doc],
                 next_ObjectId := Suc (next_ObjectId w)\<rparr>
      in case post_result of
           Inl e \<Rightarrow> (Inl e, w1)
         | Inr status_code \<Rightarrow>
             (if status_code \<noteq> 200
                then Inr (message False ''Failed to save data to Google Sheets.'')
              else Inr (accepted d (next_ObjectId w)),
              w1\<lparr>posted := posted w1 @ [(VALIDATION_SCRIPT_URL, json_dumps (PDict data))]\<rparr>))"
  using assms
  by (auto simp add: validate_try_def encodes_def registered_def validated_def getitems_present
      insert_one_fields Let_def dict_set_id accepted_def split: sum.splits)



text \<open>
  C10. A POST whose JSON body is an object without a \<open>qr_data\<close> field, or with a falsy
  one (the empty string and null among them), is answered with "No QR data provided."
  The answer does not depend on the store or the ledger, and the state is unchanged:
  nothing is decoded, looked up or written.
\<close>

theorem no_qr_data:
  assumes "method request = POST" and "json request = PDict body"
    and "map_of body (lit ''qr_data'') = None \<or>
         (\<exists>v. map_of body (lit ''qr_data'') = Some v \<and> \<not> truthy v)"
  shows "validate w post_result request = (message False ''No QR data provided.'', w)"
  using assms by (auto simp: validate_def dict_get_def Let_def)

theorem no_qr_data_witness:
  "method (scan []) = POST \<and> json (scan []) = PDict [(lit ''qr_data'', PStr [])] \<and>
   (map_of [(lit ''qr_data'', PStr [])] (lit ''qr_data'') = None \<or>
    (\<exists>v. map_of [(lit ''qr_data'', PStr [])] (lit ''qr_data'') = Some v \<and> \<not> truthy v)) \<and>
   validate world1 (Inr 200) (scan []) = (message False ''No QR data provided.'', world1)"
proof -
  have 1: "method (scan []) = POST" and 2: "json (scan []) = PDict [(lit ''qr_data'', PStr [])]"
    by (simp_all add: scan_def)
  have 3: "map_of [(lit ''qr_data'', PStr [])] (lit ''qr_data'') = None \<or>
    (\<exists>v. map_of [(lit ''qr_data'', PStr [])] (lit ''qr_data'') = Some v \<and> \<not> truthy v)"
    by simp
  from no_qr_data [OF 1 2 3, of world1 "Inr 200"] 1 2 3 show ?thesis by blast
qed
















lemma map_of_form:
  "map_of (map (\<lambda>kv. (fst kv, PStr (snd kv))) f) k = map_option PStr (map_of f k)"
  by (induction f) auto

text \<open>
  C6. A registration whose form has the seven fields and whose register number already
  has an attendee record is answered with a redirect to the form and the flashed message
  "You have already registered"; the flashed message is the only change of the state, so
  the stored record is as before and nothing is inserted.
\<close>

theorem duplicate_registration_rejected:
  assumes "list_all (\<lambda>field. map_of (form request) field \<noteq> None) required_fields"
    and "map_of (form request) (lit ''register_number'') = Some r"
    and "registered w (PStr r)"
  shows "register w post_result smtp_ok request =
     (Redirect (lit ''index''),
      w\<lparr>flashed := flashed w @
         [lit ''You have already registered. Please check your details and try again.'']\<rparr>)"
proof -
  let ?info = "map (\<lambda>kv. (fst kv, PStr (snd kv))) (form request)"
  have "list_all (\<lambda>field. map_of ?info field \<noteq> None) required_fields"
    using assms(1) by (simp add: map_of_form list_all_iff)
  then have items: "getitems ?info required_fields =
      Inr (map (\<lambda>k. (k, dict_get ?info k)) required_fields)"
    by (rule getitems_present)
  have rn: "dict_get (map (\<lambda>k. (k, dict_get ?info k)) required_fields) (lit ''register_number'')
      = PStr r"
    using assms(2) by (simp add: required_fields_def dict_get_def map_of_form)
  from assms(3) obtain doc where
    "find_one (registration_collection w) (lit ''register_number'') (PStr r) = Some doc"
    by (auto simp: registered_def)
  then show ?thesis
    by (simp add: register_def items rn)
qed

subsection \<open>The properties at the concrete scenario\<close>





lemma asha_form_complete:
  "list_all (\<lambda>field. map_of (form (register_request asha_form)) field \<noteq> None) required_fields"
  by (simp add: register_request_def asha_form_def required_fields_def)

lemma asha_form_register_number:
  "map_of (form (register_request asha_form)) (lit ''register_number'') = Some (lit ''R100'')"
  by (simp add: register_request_def asha_form_def)

theorem duplicate_registration_rejected_witness:
  "list_all (\<lambda>field. map_of (form (register_request asha_form)) field \<noteq> None) required_fields \<and>
   map_of (form (register_request asha_form)) (lit ''register_number'') = Some (lit ''R100'') \<and>
   registered world1 (PStr (lit ''R100'')) \<and>
   register world1 (Inr 200) True (register_request asha_form) =
     (Redirect (lit ''index''),
      world1\<lparr>flashed := flashed world1 @
         [lit ''You have already registered. Please check your details and try again.'']\<rparr>)"
  using duplicate_registration_rejected
    [OF asha_form_complete asha_form_register_number world1_registered, of "Inr 200" True]
    asha_form_complete asha_form_register_number world1_registered
  by blast


section \<open>The order of the checks and the HTTP surface\<close>

lemma validate_try_not_dict:
  "json_loads qr = Inr v \<Longrightarrow> \<forall>d. v \<noteq> PDict d \<Longrightarrow>
   validate_try w post_result (PStr qr) = (Inl AttributeError, w)"
  by (cases v) (simp_all add: validate_try_def)

lemma validate_try_incomplete:
  "json_loads qr = Inr (PDict d) \<Longrightarrow>
   \<not> list_all (\<lambda>field. map_of d field \<noteq> None) required_fields \<Longrightarrow>
   validate_try w post_result (PStr qr) =
     (Inr (message False ''Missing required information in QR code.''), w)"
  by (simp add: validate_try_def Let_def)

lemma validate_try_malformed:
  "json_loads qr = Inl e \<Longrightarrow> validate_try w post_result (PStr qr) = (Inl JSONDecodeError, w)"
  by (frule json_loads_error) (simp add: validate_try_def)

text \<open>
  The checks of \<open>validate\<close> in their order, for a request that posts the string \<open>qr\<close>:
  each branch but the last leaves the state as it is.
\<close>

lemma validate_check_order:
  assumes "posts_qr request qr"
  shows "validate w post_result request =
     (if qr = [] then (message False ''No QR data provided.'', w)
      else
        (case json_loads qr of
           Inl e \<Rightarrow> (message False ''Invalid QR code format.'', w)
         | Inr v \<Rightarrow>
             (case v of
                PDict d \<Rightarrow>
                  if \<not> list_all (\<lambda>field. map_of d field \<noteq> None) required_fields
                    then (message False ''Missing required information in QR code.'', w)
                  else if \<not> registered w (dict_get d (lit ''register_number''))
                    then (message False ''Registration not found. Please register first.'', w)
                  else if validated w (dict_get d (lit ''register_number''))
                    then (message False ''This QR code has already been scanned.'', w)
                  else
                    (case post_result of
                       Inl e \<Rightarrow>
                         (if e = JSONDecodeError then message False ''Invalid QR code format.''
                          else if e = KeyError
                            then message False ''Missing required information in QR code.''
                          else Unhandled e,
                          after_insert w d)
                     | Inr status_code \<Rightarrow>
                         (if status_code \<noteq> 200
                            then message False ''Failed to save data to Google Sheets.''
                          else accepted d (next_ObjectId w),
                          after_sync w d))
              | _ \<Rightarrow> (Unhandled AttributeError, w))))"
proof (cases "qr = []")
  case True
  with assms show ?thesis by (auto simp: posts_qr_iff validate_def Let_def)
next
  case ne: False
  note v = validate_posts_qr [OF assms ne]
  show ?thesis
  proof (cases "json_loads qr")
    case (Inl e)
    with ne v show ?thesis by (simp add: validate_try_malformed)
  next
    case (Inr val)
    show ?thesis
    proof (cases "\<exists>d. val = PDict d")
      case False
      then have "validate_try w post_result (PStr qr) = (Inl AttributeError, w)"
        using validate_try_not_dict [OF Inr] by simp
      with ne v Inr False show ?thesis by (cases val) simp_all
    next
      case True
      then obtain d where d: "val = PDict d" by blast
      show ?thesis
      proof (cases "list_all (\<lambda>field. map_of d field \<noteq> None) required_fields")
        case False
        with ne v Inr d show ?thesis by (simp add: validate_try_incomplete)
      next
        case complete: True
        with Inr d have enc: "encodes qr d" by (simp add: encodes_def)
        show ?thesis
        proof (cases "registered w (dict_get d (lit ''register_number''))")
          case False
          with ne v Inr d complete show ?thesis
            by (simp add: validate_try_unregistered [OF enc])
        next
          case reg: True
          show ?thesis
          proof (cases "validated w (dict_get d (lit ''register_number''))")
            case True
            with ne v Inr d complete reg show ?thesis
              by (simp add: validate_try_used [OF enc])
          next
            case False
            with ne v Inr d complete reg show ?thesis
              by (cases post_result)
                (auto simp add: validate_try_insert [OF enc] Let_def after_insert_def after_sync_def
                  split: exn.splits)
          qed
        qed
      qed
    qed
  qed
qed



text \<open>
  C3. A payload that is valid JSON but not an object, here the number \<open>123\<close> and the
  JSON string \<open>"R100"\<close>, makes \<open>attendee_info.get\<close> raise \<open>AttributeError\<close>, which no
  \<open>except\<close> clause catches: the handler raises instead of answering.
\<close>

theorem not_an_object_unhandled:
  "validate w post_result (scan (lit ''123'')) = (Unhandled AttributeError, w) \<and>
   validate w post_result (scan (34 # lit ''R100'' @ [34])) = (Unhandled AttributeError, w)"
proof -
  have 1: "json_loads (lit ''123'') = Inr (PInt 123)"
    by (simp add: json_eval)
  have 2: "json_loads (34 # lit ''R100'' @ [34]) = Inr (PStr (lit ''R100''))"
    by (simp add: json_eval)
  show ?thesis
    by (simp add: validate_check_order [OF scan_posts_qr] 1 2)
qed

text \<open>
  C2. The payload \<open>[]\<close> is valid JSON without any of the required fields, and it is not
  answered with "Missing required information": the \<open>AttributeError\<close> of
  \<open>attendee_info.get\<close> leaves the handler before the check of the fields is reached.
\<close>

theorem array_payload_unhandled:
  "validate w post_result (scan (lit ''[]'')) = (Unhandled AttributeError, w)"
proof -
  have 1: "json_loads (lit ''[]'') = Inr (PList [])"
    by (simp add: json_eval)
  show ?thesis
    by (simp add: validate_check_order [OF scan_posts_qr] 1)
qed





section \<open>The QR payload codec\<close>




lemma drop_format_04x: "drop 4 (format_04x n @ t) = t"
  by (simp add: format_04x_def)





















section \<open>Overlapping validations\<close>

lemma steps_Done: "steps n w post_result (Done r) = (Done r, w)"
  by (induction n) simp_all

text \<open>A thread that runs alone does what \<open>validate\<close> does.\<close>

lemma steps_validate:
  "steps 4 w post_result (Start request) =
     (Done (fst (validate w post_result request)), snd (validate w post_result request))"
  by (auto simp: eval_nat_numeral validate_def validate_try_def Let_def steps_Done except_def
      split: sum.splits pyval.splits option.splits exn.splits prod.splits)










declare step.simps [simp del]
















end
